theory Spec2Isabelle
  imports Complex_Main "HOL-Library.Sublist"
begin

section \<open>AetherSense chat backend: the enrichment pipeline of \<^verbatim>\<open>chat-bot/main.py\<close>\<close>

text \<open>
  The development embeds the request pipeline of \<^verbatim>\<open>src/chat-bot/main.py\<close>: the keyword
  extractor, the data fetchers, the context enricher, model normalisation, the buffered
  reply generator, the reply streamer and the two HTTP routes the properties below are
  about. Outbound calls (the space-data provider, the chat-completion provider), the
  clock and Python's own formatting of values are inputs of the model, collected in the
  record \<open>env\<close>; every outbound fetch is written to a trace, so that the number of
  calls of a fetcher can be counted.
\<close>

subsection \<open>Python text\<close>

text \<open>
  A Python \<^verbatim>\<open>str\<close> is modelled by a \<^typ>\<open>string\<close> holding its UTF-8 encoding, so the
  ASCII characters are single \<^typ>\<open>char\<close>s and \<^verbatim>\<open>.encode("utf-8")\<close> is the identity.
  \<^verbatim>\<open>str.lower\<close> is modelled on the ASCII letters. The source uses the lower-cased text
  only to compare it with ASCII literals (the vocabulary terms and \<^verbatim>\<open>"gpt-5"\<close>), and no
  character outside ASCII lower-cases into a character sequence that could complete one
  of these literals, so the comparisons agree with Python's.
\<close>

definition ascii_uppercase :: string where
  "ascii_uppercase = ''ABCDEFGHIJKLMNOPQRSTUVWXYZ''"

definition ascii_lowercase :: string where
  "ascii_lowercase = ''abcdefghijklmnopqrstuvwxyz''"

definition lower_char :: "char \<Rightarrow> char" where
  "lower_char c =
     (case map_of (zip ascii_uppercase ascii_lowercase) c of Some d \<Rightarrow> d | None \<Rightarrow> c)"

definition py_lower :: "string \<Rightarrow> string" where
  "py_lower s = map lower_char s"

text \<open>\<^verbatim>\<open>needle in haystack\<close> on strings: the needle occurs as a contiguous run.\<close>

fun starts_with :: "string \<Rightarrow> string \<Rightarrow> bool" where
  "starts_with [] s = True"
| "starts_with (k # ks) [] = False"
| "starts_with (k # ks) (c # cs) = (k = c \<and> starts_with ks cs)"

fun py_in :: "string \<Rightarrow> string \<Rightarrow> bool" where
  "py_in k [] = (k = [])"
| "py_in k (c # cs) = (starts_with k (c # cs) \<or> py_in k cs)"

text \<open>
  \<^verbatim>\<open>str.strip()\<close> removes the characters Python counts as whitespace from both ends:
  U+0009 to U+000D, U+001C to U+0020, U+0085, U+00A0, U+1680, U+2000 to U+200A, U+2028,
  U+2029, U+202F, U+205F and U+3000, listed here by their UTF-8 encodings.
\<close>

definition whitespace :: "string list" where
  "whitespace =
     [[CHR 0x09], [CHR 0x0A], [CHR 0x0B], [CHR 0x0C], [CHR 0x0D],
      [CHR 0x1C], [CHR 0x1D], [CHR 0x1E], [CHR 0x1F], [CHR 0x20],
      [CHR 0xC2, CHR 0x85], [CHR 0xC2, CHR 0xA0], [CHR 0xE1, CHR 0x9A, CHR 0x80],
      [CHR 0xE2, CHR 0x80, CHR 0x80], [CHR 0xE2, CHR 0x80, CHR 0x81],
      [CHR 0xE2, CHR 0x80, CHR 0x82], [CHR 0xE2, CHR 0x80, CHR 0x83],
      [CHR 0xE2, CHR 0x80, CHR 0x84], [CHR 0xE2, CHR 0x80, CHR 0x85],
      [CHR 0xE2, CHR 0x80, CHR 0x86], [CHR 0xE2, CHR 0x80, CHR 0x87],
      [CHR 0xE2, CHR 0x80, CHR 0x88], [CHR 0xE2, CHR 0x80, CHR 0x89],
      [CHR 0xE2, CHR 0x80, CHR 0x8A], [CHR 0xE2, CHR 0x80, CHR 0xA8],
      [CHR 0xE2, CHR 0x80, CHR 0xA9], [CHR 0xE2, CHR 0x80, CHR 0xAF],
      [CHR 0xE2, CHR 0x81, CHR 0x9F], [CHR 0xE3, CHR 0x80, CHR 0x80]]"

text \<open>Removing leading tokens of a list, as long as one of them starts the text.\<close>

function strip_tokens :: "string list \<Rightarrow> string \<Rightarrow> string" where
  "strip_tokens ws s =
     (case find (\<lambda>w. w \<noteq> [] \<and> starts_with w s) ws of
        Some w \<Rightarrow> strip_tokens ws (drop (length w) s)
      | None \<Rightarrow> s)"
  by pat_completeness auto
termination
proof (relation "measure (\<lambda>(ws, s). length s)")
  show "wf (measure (\<lambda>(ws, s). length s))" by simp
next
  fix ws :: "string list" and s w :: string
  assume "find (\<lambda>w. w \<noteq> [] \<and> starts_with w s) ws = Some w"
  then have "w \<noteq> []" and "starts_with w s"
    by (auto simp: find_Some_iff)
  then have "s \<noteq> []" by (cases w; cases s) auto
  with \<open>w \<noteq> []\<close> show "((ws, drop (length w) s), (ws, s)) \<in> measure (\<lambda>(ws, s). length s)"
    by simp
qed

declare strip_tokens.simps [simp del]

definition py_lstrip :: "string \<Rightarrow> string" where
  "py_lstrip s = strip_tokens whitespace s"

definition py_rstrip :: "string \<Rightarrow> string" where
  "py_rstrip s = rev (strip_tokens (map rev whitespace) (rev s))"

definition py_strip :: "string \<Rightarrow> string" where
  "py_strip s = py_rstrip (py_lstrip s)"

subsection \<open>Keyword extractor\<close>

definition space_keywords :: "string list" where
  "space_keywords =
     [''space'', ''mars'', ''moon'', ''sun'', ''solar'', ''asteroid'', ''comet'', ''planet'',
      ''galaxy'', ''star'', ''satellite'', ''orbit'', ''nasa'', ''astronomy'', ''cosmos'',
      ''universe'', ''earth'', ''weather'', ''satellite'', ''imagery'', ''space weather'']"

text \<open>The loop over the vocabulary, appending every keyword found to \<open>found_keywords\<close>.\<close>

fun scan_keywords :: "string list \<Rightarrow> string \<Rightarrow> string list \<Rightarrow> string list" where
  "scan_keywords [] message_lower found_keywords = found_keywords"
| "scan_keywords (keyword # rest) message_lower found_keywords =
     scan_keywords rest message_lower
       (if py_in keyword message_lower then found_keywords @ [keyword] else found_keywords)"

definition extract_space_keywords :: "string \<Rightarrow> string list" where
  "extract_space_keywords message =
     (let message_lower = py_lower message
      in scan_keywords space_keywords message_lower [])"

subsection \<open>Model normalisation\<close>

text \<open>
  \<^verbatim>\<open>normalize_model\<close> reads the module constant \<^verbatim>\<open>DEFAULT_MODEL\<close>, here its first
  argument. The requested model is \<open>None\<close> when absent.
\<close>

definition normalize_model :: "string \<Rightarrow> string option \<Rightarrow> string" where
  "normalize_model DEFAULT_MODEL model =
     (let requested = py_strip (case model of None \<Rightarrow> [] | Some m \<Rightarrow> m)
      in if requested = [] then DEFAULT_MODEL
         else if py_lower requested = ''gpt-5'' then ''gpt-5''
         else requested)"

subsection \<open>Values, exceptions and the environment\<close>

text \<open>
  A Python float is either finite or one of the three special values; \<open>-0.0\<close> and
  \<open>0.0\<close> are both \<open>Finite 0\<close>, and \<^verbatim>\<open>x == 0\<close> holds for exactly these.
\<close>

datatype pyfloat = Finite real | PosInf | NegInf | NaN

definition float_is_zero :: "pyfloat \<Rightarrow> bool" where
  "float_is_zero x = (x = Finite 0)"

text \<open>What \<^verbatim>\<open>response.json()\<close> decodes to, and what a message dictionary holds.\<close>

datatype json =
    JNull
  | JBool bool
  | JInt int
  | JFloat pyfloat
  | JStr string
  | JList "json list"
  | JDict "(string \<times> json) list"

text \<open>A dictionary with string keys is an association list with distinct keys.\<close>

type_synonym dict = "(string \<times> json) list"

definition dict_has :: "string \<Rightarrow> dict \<Rightarrow> bool" where
  "dict_has k d = (map_of d k \<noteq> None)"

definition dict_get :: "dict \<Rightarrow> string \<Rightarrow> json \<Rightarrow> json" where
  "dict_get d k dflt = (case map_of d k of Some v \<Rightarrow> v | None \<Rightarrow> dflt)"

text \<open>
  The exceptions the modelled code can meet. \<open>Upstream\<close> is an exception raised by an
  outbound call and carries its message; the other kinds are raised by the Python
  runtime or by the validation of a response model.
\<close>

datatype exn = AttributeError | TypeError | IndexError | ValidationError | Upstream string

text \<open>Python's truth value of a decoded value (\<^verbatim>\<open>if not x\<close>).\<close>

fun truthy :: "json \<Rightarrow> bool" where
  "truthy JNull = False"
| "truthy (JBool b) = b"
| "truthy (JInt i) = (i \<noteq> 0)"
| "truthy (JFloat x) = (\<not> float_is_zero x)"
| "truthy (JStr s) = (s \<noteq> [])"
| "truthy (JList xs) = (xs \<noteq> [])"
| "truthy (JDict d) = (d \<noteq> [])"

text \<open>\<^verbatim>\<open>"error" in x\<close>: a key of a dictionary, an element of a list, a substring of a string;
  any other operand raises.\<close>

fun py_contains :: "string \<Rightarrow> json \<Rightarrow> exn + bool" where
  "py_contains k (JDict d) = Inr (dict_has k d)"
| "py_contains k (JList xs) = Inr (JStr k \<in> set xs)"
| "py_contains k (JStr s) = Inr (py_in k s)"
| "py_contains k v = Inl TypeError"

text \<open>\<^verbatim>\<open>x["error"]\<close>, read only where \<^verbatim>\<open>"error" in x\<close> holds: a dictionary gives the entry,
  a list or a string cannot be indexed by a string.\<close>

fun py_subscript :: "json \<Rightarrow> string \<Rightarrow> exn + json" where
  "py_subscript (JDict d) k = Inr (dict_get d k JNull)"
| "py_subscript v k = Inl TypeError"

text \<open>The first \<open>n\<close> code points of UTF-8 text: a continuation byte belongs to the code
  point before it.\<close>

definition is_continuation :: "char \<Rightarrow> bool" where
  "is_continuation c = ((128::nat) \<le> of_char c \<and> (of_char c :: nat) < 192)"

fun take_chars :: "nat \<Rightarrow> string \<Rightarrow> string" where
  "take_chars n [] = []"
| "take_chars n (c # cs) =
     (if is_continuation c then c # take_chars n cs
      else (case n of 0 \<Rightarrow> [] | Suc m \<Rightarrow> c # take_chars m cs))"

definition count_chars :: "string \<Rightarrow> nat" where
  "count_chars s = length (filter (\<lambda>c. \<not> is_continuation c) s)"

text \<open>\<^verbatim>\<open>x[:200]\<close> and \<^verbatim>\<open>len(x)\<close> on a decoded value.\<close>

fun py_slice_to :: "nat \<Rightarrow> json \<Rightarrow> exn + json" where
  "py_slice_to n (JStr s) = Inr (JStr (take_chars n s))"
| "py_slice_to n (JList xs) = Inr (JList (take n xs))"
| "py_slice_to n v = Inl TypeError"

fun py_len :: "json \<Rightarrow> exn + nat" where
  "py_len (JStr s) = Inr (count_chars s)"
| "py_len (JList xs) = Inr (length xs)"
| "py_len (JDict d) = Inr (length d)"
| "py_len v = Inl TypeError"

text \<open>\<^verbatim>\<open>sep.join(xs)\<close>.\<close>

fun py_join :: "string \<Rightarrow> string list \<Rightarrow> string" where
  "py_join sep [] = []"
| "py_join sep [x] = x"
| "py_join sep (x # y # ys) = x @ sep @ py_join sep (y # ys)"

text \<open>
  The outbound events of a request, in the order they happen. A fetch is recorded with
  the query parameters that vary; a chat completion with its model, its messages and
  whether it streams.
\<close>

datatype call =
    GetApod
  | GetNeoFeed string string
  | GetEarthImagery pyfloat pyfloat string
  | GetInsightWeather
  | GetDonkiNotifications
  | ChatCompletion string "dict list" bool

text \<open>One chunk of a streamed completion: the \<^verbatim>\<open>delta\<close> of each of its choices, \<open>None\<close> for
  a missing delta; a delta has an optional content.\<close>

datatype delta = Delta "string option"

type_synonym chunk = "delta option list"

text \<open>
  The environment of a request. Each provider field is the outcome of
  \<^verbatim>\<open>requests.get(...)\<close>, \<^verbatim>\<open>raise_for_status()\<close> and \<^verbatim>\<open>json()\<close> together (\<open>Inl\<close> when one of
  them raises), given the calls made so far. The image-of-day, near-earth-object,
  imagery and weather endpoints answer with a JSON object, as the fetchers' declared
  return type \<^verbatim>\<open>Dict[str, Any]\<close> says; the notifications endpoint answers with a JSON
  array in practice, so its body is any decoded value. A buffered completion is the
  list of the message contents of its choices. A streamed completion is the chunks it
  delivers and the exception that ends it, if one does. \<open>py_format\<close> is Python's
  \<^verbatim>\<open>str\<close> on a value that is not a string, \<open>exn_message\<close> its \<^verbatim>\<open>str\<close> on an exception
  of the runtime.
\<close>

record env =
  default_model :: string
  today :: string
  apod_response :: "call list \<Rightarrow> exn + dict"
  neo_response :: "string \<Rightarrow> string \<Rightarrow> call list \<Rightarrow> exn + dict"
  earth_imagery_response :: "pyfloat \<Rightarrow> pyfloat \<Rightarrow> string \<Rightarrow> call list \<Rightarrow> exn + dict"
  mars_weather_response :: "call list \<Rightarrow> exn + dict"
  donki_response :: "call list \<Rightarrow> exn + json"
  chat_completion :: "string \<Rightarrow> dict list \<Rightarrow> call list \<Rightarrow> exn + string option list"
  chat_completion_stream ::
    "string \<Rightarrow> dict list \<Rightarrow> call list \<Rightarrow> exn + chunk list \<times> exn option"
  py_format :: "json \<Rightarrow> string"
  exn_message :: "exn \<Rightarrow> string"

definition py_str :: "env \<Rightarrow> json \<Rightarrow> string" where
  "py_str env v = (case v of JStr s \<Rightarrow> s | _ \<Rightarrow> py_format env v)"

definition exn_str :: "env \<Rightarrow> exn \<Rightarrow> string" where
  "exn_str env e = (case e of Upstream s \<Rightarrow> s | _ \<Rightarrow> exn_message env e)"

subsection \<open>Data fetchers\<close>

text \<open>Every fetcher makes its one outbound call and turns any exception into a
  dictionary with the key \<^verbatim>\<open>"error"\<close>.\<close>

definition get_nasa_apod :: "env \<Rightarrow> call list \<Rightarrow> dict \<times> call list" where
  "get_nasa_apod env tr =
     (case apod_response env tr of
        Inr body \<Rightarrow> body
      | Inl e \<Rightarrow> [(''error'', JStr (''Failed to fetch APOD: '' @ exn_str env e))],
      tr @ [GetApod])"

definition get_nasa_neo_today :: "env \<Rightarrow> call list \<Rightarrow> dict \<times> call list" where
  "get_nasa_neo_today env tr =
     (case neo_response env (today env) (today env) tr of
        Inr body \<Rightarrow> body
      | Inl e \<Rightarrow> [(''error'', JStr (''Failed to fetch NEO data: '' @ exn_str env e))],
      tr @ [GetNeoFeed (today env) (today env)])"



definition get_nasa_mars_weather :: "env \<Rightarrow> call list \<Rightarrow> dict \<times> call list" where
  "get_nasa_mars_weather env tr =
     (case mars_weather_response env tr of
        Inr body \<Rightarrow> body
      | Inl e \<Rightarrow> [(''error'', JStr (''Failed to fetch Mars weather: '' @ exn_str env e))],
      tr @ [GetInsightWeather])"

definition get_space_weather_alerts :: "env \<Rightarrow> call list \<Rightarrow> json \<times> call list" where
  "get_space_weather_alerts env tr =
     (case donki_response env tr of
        Inr body \<Rightarrow> body
      | Inl e \<Rightarrow>
          JDict [(''error'', JStr (''Failed to fetch space weather: '' @ exn_str env e))],
      tr @ [GetDonkiNotifications])"

subsection \<open>Context enricher\<close>

text \<open>The newest-to-oldest scan for the last user message; \<open>JNull\<close> is Python's \<^verbatim>\<open>None\<close>,
  the value of \<^verbatim>\<open>user_message\<close> when the loop finds no user message.\<close>

definition is_user :: "dict \<Rightarrow> bool" where
  "is_user msg = (dict_get msg ''role'' JNull = JStr ''user'')"

fun find_user_message :: "dict list \<Rightarrow> json" where
  "find_user_message [] = JNull"
| "find_user_message (msg # rest) =
     (if is_user msg then dict_get msg ''content'' (JStr [])
      else find_user_message rest)"

text \<open>The call \<^verbatim>\<open>extract_space_keywords(user_message)\<close> on a value that need not be a
  string: \<^verbatim>\<open>message.lower()\<close> raises on anything else.\<close>

definition call_extract_space_keywords :: "json \<Rightarrow> exn + string list" where
  "call_extract_space_keywords user_message =
     (case user_message of
        JStr message \<Rightarrow> Inr (extract_space_keywords message)
      | _ \<Rightarrow> Inl AttributeError)"

text \<open>\<^verbatim>\<open>any(keyword in category for keyword in space_keywords)\<close>.\<close>

definition any_in :: "string list \<Rightarrow> string list \<Rightarrow> bool" where
  "any_in category keywords = list_ex (\<lambda>keyword. keyword \<in> set category) keywords"

text \<open>The dictionary \<^verbatim>\<open>nasa_data\<close>: one optional entry per fetcher.\<close>

record nasa_data =
  apod :: "dict option"
  neo :: "dict option"
  mars_weather :: "dict option"
  space_weather :: "json option"

text \<open>
  The four fetch blocks, in source order, one definition for each. A block runs its
  fetcher when a keyword of its category was found, and keeps the payload when it has
  no \<^verbatim>\<open>"error"\<close>. The trace messages are left out, except for the one that reads
  \<^verbatim>\<open>space_weather['error']\<close>, which raises when the alerts body is not a dictionary;
  so does the test \<^verbatim>\<open>"error" not in space_weather\<close> on a body that is no container.
\<close>

definition fetch_apod :: "env \<Rightarrow> string list \<Rightarrow> call list \<Rightarrow> dict option \<times> call list" where
  "fetch_apod env keywords tr =
     (if any_in [''space'', ''astronomy'', ''cosmos'', ''universe'', ''star'', ''galaxy''] keywords
      then (let (apod_data, tr') = get_nasa_apod env tr
            in (if \<not> dict_has ''error'' apod_data then Some apod_data else None, tr'))
      else (None, tr))"

definition fetch_neo :: "env \<Rightarrow> string list \<Rightarrow> call list \<Rightarrow> dict option \<times> call list" where
  "fetch_neo env keywords tr =
     (if any_in [''asteroid'', ''comet'', ''neo'', ''earth'', ''orbit''] keywords
      then (let (neo_data, tr') = get_nasa_neo_today env tr
            in (if \<not> dict_has ''error'' neo_data then Some neo_data else None, tr'))
      else (None, tr))"

definition fetch_mars_weather ::
  "env \<Rightarrow> string list \<Rightarrow> call list \<Rightarrow> dict option \<times> call list" where
  "fetch_mars_weather env keywords tr =
     (if any_in [''mars'', ''weather'', ''planet''] keywords
      then (let (mars_data, tr') = get_nasa_mars_weather env tr
            in (if \<not> dict_has ''error'' mars_data then Some mars_data else None, tr'))
      else (None, tr))"

definition fetch_space_weather ::
  "env \<Rightarrow> string list \<Rightarrow> call list \<Rightarrow> (exn + json option) \<times> call list" where
  "fetch_space_weather env keywords tr =
     (if any_in [''space weather'', ''solar'', ''sun'', ''weather''] keywords
      then (let (alerts, tr') = get_space_weather_alerts env tr
            in (case py_contains ''error'' alerts of
                  Inl e \<Rightarrow> Inl e
                | Inr False \<Rightarrow> Inr (Some alerts)
                | Inr True \<Rightarrow>
                    (case py_subscript alerts ''error'' of
                       Inl e \<Rightarrow> Inl e
                     | Inr _ \<Rightarrow> Inr None),
                tr'))
      else (Inr None, tr))"

definition fetch_nasa_data ::
  "env \<Rightarrow> string list \<Rightarrow> call list \<Rightarrow> (exn + nasa_data) \<times> call list" where
  "fetch_nasa_data env keywords tr =
     (let (apod_entry, tr1) = fetch_apod env keywords tr;
          (neo_entry, tr2) = fetch_neo env keywords tr1;
          (mars_entry, tr3) = fetch_mars_weather env keywords tr2;
          (alerts_entry, tr4) = fetch_space_weather env keywords tr3
      in (case alerts_entry of
            Inl e \<Rightarrow> Inl e
          | Inr entry \<Rightarrow>
              Inr \<lparr>apod = apod_entry, neo = neo_entry, mars_weather = mars_entry,
                   space_weather = entry\<rparr>,
          tr4))"

text \<open>\<^verbatim>\<open>if nasa_data:\<close> holds when at least one entry was stored.\<close>

definition nasa_data_nonempty :: "nasa_data \<Rightarrow> bool" where
  "nasa_data_nonempty d =
     (apod d \<noteq> None \<or> neo d \<noteq> None \<or> mars_weather d \<noteq> None \<or> space_weather d \<noteq> None)"

text \<open>The briefing text. Every line of the source's triple-quoted templates starts with
  the sixteen spaces of the source's indentation.\<close>

definition nl :: string where
  "nl = [CHR 0x0A] @ replicate 16 (CHR '' '')"

definition apod_section :: "env \<Rightarrow> dict \<Rightarrow> exn + string" where
  "apod_section env payload =
     (case py_slice_to 200 (dict_get payload ''explanation'' (JStr ''N/A'')) of
        Inl e \<Rightarrow> Inl e
      | Inr explanation \<Rightarrow>
          Inr (nl @ ''ASTRONOMY PICTURE OF THE DAY:''
             @ nl @ ''- Title: '' @ py_str env (dict_get payload ''title'' (JStr ''N/A''))
             @ nl @ ''- Explanation: '' @ py_str env explanation @ ''...''
             @ nl @ ''- Image URL: '' @ py_str env (dict_get payload ''url'' (JStr ''N/A''))
             @ nl @ ''- Date: '' @ py_str env (dict_get payload ''date'' (JStr ''N/A''))
             @ nl))"

definition neo_section :: "env \<Rightarrow> dict \<Rightarrow> string" where
  "neo_section env payload =
     (let neo_count = dict_get payload ''element_count'' (JInt 0)
      in nl @ nl @ ''NEAR EARTH OBJECTS TODAY:''
         @ nl @ ''- Total objects: '' @ py_str env neo_count
         @ nl @ ''- Data source: NASA NEO API''
         @ nl)"

definition mars_section :: "env \<Rightarrow> dict \<Rightarrow> exn + string" where
  "mars_section env payload =
     (case py_len (dict_get payload ''sol_keys'' (JList [])) of
        Inl e \<Rightarrow> Inl e
      | Inr n \<Rightarrow>
          Inr (nl @ nl @ ''MARS WEATHER:''
             @ nl @ ''- Data available: Yes''
             @ nl @ ''- Source: NASA InSight lander''
             @ nl @ ''- Sol keys: '' @ py_str env (JInt (int n)) @ '' available''
             @ nl))"

definition space_section :: string where
  "space_section =
     nl @ nl @ ''SPACE WEATHER:''
     @ nl @ ''- Alerts available: Yes''
     @ nl @ ''- Source: NASA DONKI''
     @ nl"

definition render_briefing :: "env \<Rightarrow> string list \<Rightarrow> nasa_data \<Rightarrow> exn + string" where
  "render_briefing env keywords found =
     (let header = nl @ ''REAL NASA DATA FETCHED:''
                 @ nl @ ''- Space keywords detected: '' @ py_join '', '' keywords
                 @ nl @ nl
      in case (case apod found of None \<Rightarrow> Inr header
               | Some payload \<Rightarrow>
                   (case apod_section env payload of
                      Inl e \<Rightarrow> Inl e
                    | Inr text \<Rightarrow> Inr (header @ text))) of
           Inl e \<Rightarrow> Inl e
         | Inr with_apod \<Rightarrow>
             (let with_neo = (case neo found of None \<Rightarrow> with_apod
                              | Some payload \<Rightarrow> with_apod @ neo_section env payload)
              in case (case mars_weather found of None \<Rightarrow> Inr with_neo
                       | Some payload \<Rightarrow>
                           (case mars_section env payload of
                              Inl e \<Rightarrow> Inl e
                            | Inr text \<Rightarrow> Inr (with_neo @ text))) of
                   Inl e \<Rightarrow> Inl e
                 | Inr with_mars \<Rightarrow>
                     (let with_space = (case space_weather found of None \<Rightarrow> with_mars
                                        | Some _ \<Rightarrow> with_mars @ space_section)
                      in Inr (with_space @ nl @ nl
                              @ ''Use this REAL NASA data to provide accurate, data-driven responses. Include specific details from the actual NASA data in your response.''
                              @ nl))))"

text \<open>The body of the \<^verbatim>\<open>try\<close> block: \<open>Inl\<close> is an exception on its way to the handler.\<close>

definition enhance_body ::
  "env \<Rightarrow> dict list \<Rightarrow> call list \<Rightarrow> (exn + dict list) \<times> call list" where
  "enhance_body env messages tr =
     (let user_message = find_user_message (rev messages)
      in if \<not> truthy user_message then (Inr messages, tr)
         else
           (case call_extract_space_keywords user_message of
              Inl e \<Rightarrow> (Inl e, tr)
            | Inr keywords \<Rightarrow>
                if keywords \<noteq> [] then
                  (case fetch_nasa_data env keywords tr of
                     (Inl e, tr') \<Rightarrow> (Inl e, tr')
                   | (Inr found, tr') \<Rightarrow>
                       if nasa_data_nonempty found then
                         (case render_briefing env keywords found of
                            Inl e \<Rightarrow> (Inl e, tr')
                          | Inr nasa_context \<Rightarrow>
                              (Inr ([(''role'', JStr ''system''),
                                     (''content'', JStr nasa_context)] # messages), tr'))
                       else (Inr messages, tr'))
                else (Inr messages, tr)))"

text \<open>The handler \<^verbatim>\<open>except Exception\<close> returns the messages it was given.\<close>

definition enhance_prompt_with_nasa_data ::
  "env \<Rightarrow> dict list \<Rightarrow> call list \<Rightarrow> dict list \<times> call list" where
  "enhance_prompt_with_nasa_data env messages tr =
     (case enhance_body env messages tr of
        (Inr enhanced_messages, tr') \<Rightarrow> (enhanced_messages, tr')
      | (Inl e, tr') \<Rightarrow> (messages, tr'))"

subsection \<open>Buffered reply generator\<close>

text \<open>\<^verbatim>\<open>client.chat.completions.create(model=mdl, messages=...)\<close> followed by
  \<^verbatim>\<open>resp.choices[0].message.content or ""\<close>.\<close>

definition create_completion ::
  "env \<Rightarrow> string \<Rightarrow> dict list \<Rightarrow> call list \<Rightarrow> (exn + string) \<times> call list" where
  "create_completion env mdl msgs tr =
     (case chat_completion env mdl msgs tr of
        Inl e \<Rightarrow> Inl e
      | Inr choices \<Rightarrow>
          (case choices of
             [] \<Rightarrow> Inl IndexError
           | content # _ \<Rightarrow> Inr (case content of None \<Rightarrow> [] | Some text \<Rightarrow> text)),
      tr @ [ChatCompletion mdl msgs False])"

definition generate_reply_body ::
  "env \<Rightarrow> string option \<Rightarrow> dict list \<Rightarrow> call list \<Rightarrow> (exn + string) \<times> call list" where
  "generate_reply_body env model messages tr =
     (let user_message = find_user_message (rev messages)
      in if \<not> truthy user_message then (Inr ''No user message found'', tr)
         else
           (case call_extract_space_keywords user_message of
              Inl e \<Rightarrow> (Inl e, tr)
            | Inr keywords \<Rightarrow>
                if keywords \<noteq> [] then
                  (let (enhanced_messages, tr1) = enhance_prompt_with_nasa_data env messages tr;
                       mdl = normalize_model (default_model env) model
                   in create_completion env mdl enhanced_messages tr1)
                else
                  (let mdl = normalize_model (default_model env) model
                   in create_completion env mdl messages tr)))"

definition generate_reply ::
  "env \<Rightarrow> string option \<Rightarrow> dict list \<Rightarrow> call list \<Rightarrow> string \<times> call list" where
  "generate_reply env model messages tr =
     (case generate_reply_body env model messages tr of
        (Inr text, tr') \<Rightarrow> (text, tr')
      | (Inl e, tr') \<Rightarrow> (''Error generating reply: '' @ exn_str env e, tr'))"

subsection \<open>Reply streamer\<close>

text \<open>
  The loop over the stream. It returns the fragments yielded so far and the exception
  that leaves the loop, if one does: \<^verbatim>\<open>chunk.choices[0]\<close> raises on a chunk without
  choices, and the stream itself may end by raising (\<open>final\<close>). A fragment is yielded
  for a delta with a non-empty content.
\<close>

fun consume_stream :: "chunk list \<Rightarrow> exn option \<Rightarrow> string list \<times> exn option" where
  "consume_stream [] final = ([], final)"
| "consume_stream ([] # chunks) final = ([], Some IndexError)"
| "consume_stream ((d # _) # chunks) final =
     (let (fragments, raised) = consume_stream chunks final
      in case d of
           Some (Delta (Some text)) \<Rightarrow>
             (if text \<noteq> [] then (text # fragments, raised) else (fragments, raised))
         | _ \<Rightarrow> (fragments, raised))"

definition fallback_marker :: string where
  "fallback_marker = ''(stream disabled fallback)'' @ [CHR 0x0A]"

text \<open>The generator, as the list of the fragments it yields. What was yielded before an
  exception has already left the generator; the handler yields one more fragment.\<close>

definition stream_tokens_from_openai ::
  "env \<Rightarrow> string option \<Rightarrow> dict list \<Rightarrow> call list \<Rightarrow> string list \<times> call list" where
  "stream_tokens_from_openai env model messages tr =
     (let (enhanced_messages, tr1) = enhance_prompt_with_nasa_data env messages tr;
          mdl = normalize_model (default_model env) model;
          tr2 = tr1 @ [ChatCompletion mdl enhanced_messages True]
      in case chat_completion_stream env mdl enhanced_messages tr1 of
           Inl e \<Rightarrow>
             (let (reply, tr3) = generate_reply env model messages tr2
              in ([fallback_marker @ reply], tr3))
         | Inr (chunks, final) \<Rightarrow>
             (case consume_stream chunks final of
                (fragments, None) \<Rightarrow> (fragments, tr2)
              | (fragments, Some e) \<Rightarrow>
                  (let (reply, tr3) = generate_reply env model messages tr2
                   in (fragments @ [fallback_marker @ reply], tr3))))"

subsection \<open>HTTP routes\<close>

text \<open>The request models. The fields carry a prefix, since \<open>model\<close>, \<open>messages\<close> and
  \<open>date\<close> are also names of arguments.\<close>

record ChatMessage =
  msg_role :: string
  msg_content :: string

record ChatRequest =
  req_messages :: "ChatMessage list"
  req_model :: "string option"
  req_stream :: bool


text \<open>What a route answers: a body with status 200, an \<^verbatim>\<open>HTTPException\<close> with its status
  and detail, or the framework's status 500 for an exception the route did not handle.\<close>

datatype 'a http_response = OK 'a | HTTPException nat json | InternalServerError

definition ensure_messages :: "ChatMessage list \<Rightarrow> dict list" where
  "ensure_messages msgs =
     map (\<lambda>msg. [(''role'', JStr (msg_role msg)), (''content'', JStr (msg_content msg))]) msgs"

text \<open>\<^verbatim>\<open>request.model or DEFAULT_MODEL\<close>.\<close>

definition model_or_default :: "env \<Rightarrow> string option \<Rightarrow> string" where
  "model_or_default env requested =
     (case requested of None \<Rightarrow> default_model env
      | Some m \<Rightarrow> if m = [] then default_model env else m)"

text \<open>The buffered chat route. Nothing in its \<^verbatim>\<open>try\<close> block raises: the conversion is
  total and the reply generator returns a text.\<close>

definition chat_non_streaming ::
  "env \<Rightarrow> ChatRequest \<Rightarrow> call list \<Rightarrow> dict http_response \<times> call list" where
  "chat_non_streaming env request tr =
     (let messages = ensure_messages (req_messages request);
          model = model_or_default env (req_model request);
          (reply, tr') = generate_reply env (Some model) messages tr
      in (OK [(''reply'', JStr reply)], tr'))"

definition chat_stream ::
  "env \<Rightarrow> ChatRequest \<Rightarrow> call list \<Rightarrow> string list http_response \<times> call list" where
  "chat_stream env request tr =
     (let messages = ensure_messages (req_messages request);
          model = model_or_default env (req_model request);
          (fragments, tr') = stream_tokens_from_openai env (Some model) messages tr
      in (OK fragments, tr'))"




subsection \<open>A concrete environment\<close>

text \<open>
  An environment to run the definitions on: the image-of-day, weather and imagery
  endpoints answer, the near-earth-object feed times out, the notifications endpoint
  answers with an empty array, a buffered completion answers with one choice, and a
  streamed completion delivers two fragments and then breaks.
\<close>

definition example_env :: env where
  "example_env =
     \<lparr>default_model = ''gpt-5'',
      today = ''2024-05-01'',
      apod_response = (\<lambda>tr. Inr [(''title'', JStr ''Orion''), (''explanation'', JStr ''A nebula''),
                                  (''url'', JStr ''https://apod/orion.jpg''),
                                  (''date'', JStr ''2024-05-01'')]),
      neo_response = (\<lambda>start_date end_date tr. Inl (Upstream ''timed out'')),
      earth_imagery_response =
        (\<lambda>lat lon date tr. Inr [(''url'', JStr ''https://earth/tile.png''), (''date'', JStr date)]),
      mars_weather_response = (\<lambda>tr. Inr [(''sol_keys'', JList [JStr ''675'', JStr ''676''])]),
      donki_response = (\<lambda>tr. Inr (JList [])),
      chat_completion = (\<lambda>mdl msgs tr. Inr [Some ''Clear skies'']),
      chat_completion_stream =
        (\<lambda>mdl msgs tr. Inr ([[Some (Delta (Some ''Clear''))], [Some (Delta (Some '' skies''))]],
                             Some (Upstream ''connection reset''))),
      py_format = (\<lambda>v. ''<value>''),
      exn_message = (\<lambda>e. ''<exception>'')\<rparr>"

definition user_says :: "string \<Rightarrow> dict" where
  "user_says text = [(''role'', JStr ''user''), (''content'', JStr text)]"

section \<open>Properties\<close>

subsection \<open>Text helpers\<close>

lemma starts_with_prefix: "starts_with k s \<longleftrightarrow> prefix k s"
  by (induction k s rule: starts_with.induct) auto

lemma py_in_sublist: "py_in k s \<longleftrightarrow> sublist k s"
  by (induction s) (auto simp: starts_with_prefix sublist_Cons_right)

lemma scan_keywords_filter:
  "scan_keywords vocab low found = found @ filter (\<lambda>k. py_in k low) vocab"
  by (induction vocab arbitrary: found) auto

lemma extract_space_keywords_filter:
  "extract_space_keywords message =
     filter (\<lambda>k. sublist k (py_lower message)) space_keywords"
  by (simp add: extract_space_keywords_def scan_keywords_filter py_in_sublist)


lemma count_list_filter_le: "count_list (filter P xs) k \<le> count_list xs k"
  by (induction xs) auto

lemma count_list_remove1_other: "k \<noteq> x \<Longrightarrow> count_list (remove1 x xs) k = count_list xs k"
  by (induction xs) auto

lemma count_list_distinct_le_one: "distinct xs \<Longrightarrow> count_list xs k \<le> 1"
  by (induction xs) (auto simp: count_list_0_iff)

lemma space_keywords_distinct_but_satellite: "distinct (remove1 ''satellite'' space_keywords)"
  by code_simp

lemma extract_space_keywords_count_le_one:
  assumes "k \<noteq> ''satellite''"
  shows "count_list (extract_space_keywords message) k \<le> 1"
proof -
  have "count_list (extract_space_keywords message) k \<le> count_list space_keywords k"
    by (simp add: extract_space_keywords_filter count_list_filter_le)
  also have "\<dots> = count_list (remove1 ''satellite'' space_keywords) k"
    using assms by (simp add: count_list_remove1_other)
  also have "\<dots> \<le> 1"
    using space_keywords_distinct_but_satellite by (rule count_list_distinct_le_one)
  finally show ?thesis .
qed



subsection \<open>Conversation scan and fetch trace\<close>

lemma find_user_message_none:
  "\<forall>m\<in>set msgs. \<not> is_user m \<Longrightarrow> find_user_message msgs = JNull"
  by (induction msgs) auto

lemma find_user_message_skip:
  "\<forall>m\<in>set pre. \<not> is_user m \<Longrightarrow> find_user_message (pre @ rest) = find_user_message rest"
  by (induction pre) auto

lemma find_last_user_message:
  assumes "is_user m" and "\<forall>x\<in>set after. \<not> is_user x"
  shows "find_user_message (rev (before @ m # after)) = dict_get m ''content'' (JStr [])"
proof -
  have "rev (before @ m # after) = rev after @ m # rev before" by simp
  moreover have "\<forall>x\<in>set (rev after). \<not> is_user x" using assms(2) by simp
  ultimately have "find_user_message (rev (before @ m # after)) = find_user_message (m # rev before)"
    using find_user_message_skip by metis
  with assms(1) show ?thesis by simp
qed






subsection \<open>Keyword extractor\<close>

text \<open>
  Claim C1. For every input the extractor returns the vocabulary terms that occur in the
  lower-cased input, in vocabulary order, with at most one output entry per vocabulary
  term, and the empty input gives the empty output. The lemmas
  \<open>extract_space_keywords_filter\<close> and \<open>extract_space_keywords_empty\<close> above give the
  first and the last part, and \<open>extract_space_keywords_count_le_one\<close> the bound for
  every term but one. The vocabulary of the source lists the term \<^verbatim>\<open>"satellite"\<close>
  twice, so the input \<^verbatim>\<open>"satellite"\<close> comes back with two entries for that one term.
\<close>

theorem extract_space_keywords_satellite_twice:
  "extract_space_keywords ''satellite'' = [''satellite'', ''satellite'']"
  by code_simp

subsection \<open>Model normalisation\<close>




subsection \<open>Context enricher\<close>

lemma enhance_body_cases:
  "fst (enhance_body env messages tr) = Inr messages
   \<or> (\<exists>briefing. fst (enhance_body env messages tr) =
          Inr ([(''role'', JStr ''system''), (''content'', JStr briefing)] # messages))
   \<or> (\<exists>e. fst (enhance_body env messages tr) = Inl e)"
  by (simp add: enhance_body_def Let_def split: sum.splits prod.splits)

lemma enhance_body_quiet:
  assumes "find_user_message (rev messages) = JNull
           \<or> (\<exists>s. find_user_message (rev messages) = JStr s \<and> extract_space_keywords s = [])"
  shows "enhance_body env messages tr = (Inr messages, tr)"
  using assms by (auto simp: enhance_body_def call_extract_space_keywords_def)






text \<open>
  Claim C5. A conversation with no user message, and a conversation whose most recent
  user message has no vocabulary keyword, comes back unchanged, and no fetcher is
  called: the trace is the one the enricher started with.
\<close>

theorem enhance_without_keywords_unchanged:
  "((\<forall>x\<in>set messages. \<not> is_user x)
      \<longrightarrow> enhance_prompt_with_nasa_data env messages tr = (messages, tr))
   \<and> (is_user m \<and> (\<forall>x\<in>set after. \<not> is_user x)
        \<and> dict_get m ''content'' (JStr []) = JStr s \<and> extract_space_keywords s = []
      \<longrightarrow> enhance_prompt_with_nasa_data env (before @ m # after) tr
            = (before @ m # after, tr))"
proof (intro conjI impI)
  assume "\<forall>x\<in>set messages. \<not> is_user x"
  then have "find_user_message (rev messages) = JNull"
    by (simp add: find_user_message_none)
  then show "enhance_prompt_with_nasa_data env messages tr = (messages, tr)"
    by (simp add: enhance_prompt_with_nasa_data_def enhance_body_quiet)
next
  assume a: "is_user m \<and> (\<forall>x\<in>set after. \<not> is_user x)
        \<and> dict_get m ''content'' (JStr []) = JStr s \<and> extract_space_keywords s = []"
  then have "find_user_message (rev (before @ m # after)) = JStr s"
    using find_last_user_message [of m after before] by simp
  with a show "enhance_prompt_with_nasa_data env (before @ m # after) tr
            = (before @ m # after, tr)"
    by (simp add: enhance_prompt_with_nasa_data_def enhance_body_quiet)
qed

theorem enhance_without_keywords_unchanged_witness:
  "enhance_prompt_with_nasa_data example_env
         [[(''role'', JStr ''system''), (''content'', JStr ''mars'')]] []
       = ([[(''role'', JStr ''system''), (''content'', JStr ''mars'')]], [])
   \<and> enhance_prompt_with_nasa_data example_env
         [user_says ''tell me about mars'', user_says ''hello there''] [GetApod]
       = ([user_says ''tell me about mars'', user_says ''hello there''], [GetApod])"
proof -
  have n: "\<forall>x\<in>set [[(''role'', JStr ''system''), (''content'', JStr ''mars'')]]. \<not> is_user x"
    by (simp add: is_user_def dict_get_def)
  have a: "is_user (user_says ''hello there'')"
    by (simp add: is_user_def user_says_def dict_get_def)
  have b: "dict_get (user_says ''hello there'') ''content'' (JStr []) = JStr ''hello there''"
    by (simp add: user_says_def dict_get_def)
  have c: "extract_space_keywords ''hello there'' = []"
    by code_simp
  from n a b c
    enhance_without_keywords_unchanged
      [where messages = "[[(''role'', JStr ''system''), (''content'', JStr ''mars'')]]"
        and env = example_env and tr = "[]"]
    enhance_without_keywords_unchanged [where m = "user_says ''hello there''" and after = "[]"
      and before = "[user_says ''tell me about mars'']" and s = "''hello there''"
      and env = example_env and tr = "[GetApod]"]
  show ?thesis by simp
qed

text \<open>
  Claim C7. The enricher returns either the conversation it was given or that
  conversation with one system message put in front; the messages it was given stay as
  they are and in their order.
\<close>

theorem enhance_extends_conversation:
  "fst (enhance_prompt_with_nasa_data env messages tr) = messages
   \<or> (\<exists>briefing. fst (enhance_prompt_with_nasa_data env messages tr) =
          [(''role'', JStr ''system''), (''content'', JStr briefing)] # messages)"
  using enhance_body_cases [of env messages tr]
  by (auto simp: enhance_prompt_with_nasa_data_def split: sum.splits prod.splits)

theorem enhance_extends_conversation_witness:
  "\<exists>briefing. fst (enhance_prompt_with_nasa_data example_env [user_says ''deep space''] [])
     = [(''role'', JStr ''system''), (''content'', JStr briefing)] # [user_says ''deep space'']"
proof -
  have "fst (enhance_prompt_with_nasa_data example_env [user_says ''deep space''] [])
          \<noteq> [user_says ''deep space'']"
    by code_simp
  with enhance_extends_conversation [of example_env "[user_says ''deep space'']" "[]"]
  show ?thesis by simp
qed

text \<open>
  Claim C9. The enricher is exception-atomic: when a step of its \<^verbatim>\<open>try\<close> block raises,
  the handler returns the conversation it was given. (The enricher itself has no way to
  raise: its result is a conversation.) The witness is a briefing that cannot be
  rendered, because the explanation of the image of the day is a number and cannot be
  sliced.
\<close>

theorem enhance_exception_atomic:
  "fst (enhance_body env messages tr) = Inl e
   \<Longrightarrow> fst (enhance_prompt_with_nasa_data env messages tr) = messages"
  by (cases "enhance_body env messages tr") (simp add: enhance_prompt_with_nasa_data_def)

theorem enhance_exception_atomic_witness:
  "fst (enhance_body (example_env\<lparr>apod_response := \<lambda>tr. Inr [(''explanation'', JInt 7)]\<rparr>)
          [user_says ''deep space''] []) = Inl TypeError
   \<and> fst (enhance_prompt_with_nasa_data
            (example_env\<lparr>apod_response := \<lambda>tr. Inr [(''explanation'', JInt 7)]\<rparr>)
            [user_says ''deep space''] []) = [user_says ''deep space'']"
proof -
  have a: "fst (enhance_body (example_env\<lparr>apod_response := \<lambda>tr. Inr [(''explanation'', JInt 7)]\<rparr>)
          [user_says ''deep space''] []) = Inl TypeError"
    by code_simp
  from a enhance_exception_atomic [OF a] show ?thesis by simp
qed

subsection \<open>Buffered reply generator and chat route\<close>





text \<open>
  Claim C10. The answer of the buffered chat route does not depend on the \<^verbatim>\<open>stream\<close>
  field of the request: two requests with the same messages and the same model get the
  same answer (and leave the same trace).
\<close>

theorem chat_non_streaming_ignores_stream_flag:
  "req_messages r = req_messages r' \<Longrightarrow> req_model r = req_model r'
   \<Longrightarrow> chat_non_streaming env r tr = chat_non_streaming env r' tr"
  by (simp add: chat_non_streaming_def)

theorem chat_non_streaming_ignores_stream_flag_witness:
  "chat_non_streaming example_env
     \<lparr>req_messages = [\<lparr>msg_role = ''user'', msg_content = ''hello''\<rparr>],
      req_model = None, req_stream = True\<rparr> []
   = chat_non_streaming example_env
     \<lparr>req_messages = [\<lparr>msg_role = ''user'', msg_content = ''hello''\<rparr>],
      req_model = None, req_stream = False\<rparr> []
   \<and> fst (chat_non_streaming example_env
     \<lparr>req_messages = [\<lparr>msg_role = ''user'', msg_content = ''hello''\<rparr>],
      req_model = None, req_stream = True\<rparr> []) = OK [(''reply'', JStr ''Clear skies'')]"
proof -
  have "fst (chat_non_streaming example_env
     \<lparr>req_messages = [\<lparr>msg_role = ''user'', msg_content = ''hello''\<rparr>],
      req_model = None, req_stream = False\<rparr> []) = OK [(''reply'', JStr ''Clear skies'')]"
    by code_simp
  with chat_non_streaming_ignores_stream_flag [where env = example_env and tr = "[]"
     and r = "\<lparr>req_messages = [\<lparr>msg_role = ''user'', msg_content = ''hello''\<rparr>],
      req_model = None, req_stream = True\<rparr>"
     and r' = "\<lparr>req_messages = [\<lparr>msg_role = ''user'', msg_content = ''hello''\<rparr>],
      req_model = None, req_stream = False\<rparr>"]
  show ?thesis by simp
qed

subsection \<open>Earth imagery route\<close>







subsection \<open>Reply streamer\<close>




end
